theory Spec2Isabelle
  imports Main "HOL-Library.Word" "HOL-Library.Sublist"
begin

unbundle bit_operations_syntax

section \<open>Types and constants that event-switches.c takes from its headers\<close>

text \<open>
  \<^verbatim>\<open>gint\<close> is a 32-bit integer; \<^verbatim>\<open>GPOINTER_TO_INT(data)\<close> delivers one to every
  datapipe trigger. \<^verbatim>\<open>call_state_t\<close>, \<^verbatim>\<open>alarm_ui_state_t\<close> and \<^verbatim>\<open>submode_t\<close> are
  integer-valued types of \<^verbatim>\<open>mce.h\<close> and are kept as such.
\<close>

type_synonym gint = "32 word"
type_synonym gboolean = bool
type_synonym call_state_t = gint
type_synonym alarm_ui_state_t = gint
type_synonym submode_t = gint

text \<open>The enumerators that the translators publish.\<close>

datatype cover_state_t = COVER_OPEN | COVER_CLOSED
datatype camera_button_state_t = CAMERA_BUTTON_LAUNCH | CAMERA_BUTTON_UNPRESSED
datatype usb_cable_state_t = USB_CABLE_CONNECTED | USB_CABLE_DISCONNECTED

text \<open>The datapipes named in the file.\<close>

datatype datapipe =
    device_inactive_pipe
  | camera_button_pipe
  | lockkey_pipe
  | keyboard_slide_pipe
  | lid_cover_pipe
  | proximity_sensor_pipe
  | usb_cable_pipe
  | lens_cover_pipe
  | call_state_pipe
  | alarm_ui_state_pipe
  | submode_pipe

text \<open>
  The value handed to \<^verbatim>\<open>execute_datapipe\<close> through \<^verbatim>\<open>GINT_TO_POINTER\<close>, tagged with the
  C type it had before the cast.
\<close>

datatype indata =
    Gboolean gboolean
  | Gint gint
  | Cover cover_state_t
  | Camera_button camera_button_state_t
  | Usb_cable usb_cable_state_t

text \<open>
  The path macros. Their expansions are in \<^verbatim>\<open>event-switches.h\<close>; the file only ever
  passes them on by name, so they stay symbolic here.
\<close>

datatype path =
    MCE_FLICKER_KEY_STATE_PATH
  | MCE_KBD_SLIDE_STATE_PATH
  | MCE_CAM_FOCUS_STATE_PATH
  | MCE_CAM_LAUNCH_STATE_PATH
  | MCE_LID_COVER_STATE_PATH
  | MCE_PROXIMITY_SENSOR_STATE_PATH
  | MCE_MUSB_OMAP3_USB_CABLE_STATE_PATH
  | MCE_LENS_COVER_STATE_PATH
  | MCE_MMC0_COVER_STATE_PATH
  | MCE_MMC_COVER_STATE_PATH
  | MCE_BATTERY_COVER_STATE_PATH
  | MCE_PROXIMITY_SENSOR_DISABLE_PATH
  | MCE_CAM_FOCUS_DISABLE_PATH

text \<open>Names of the I/O monitor callbacks and of the datapipe triggers.\<close>

datatype iomon_cb =
    Generic_activity_iomon_cb
  | Camera_launch_button_iomon_cb
  | Lockkey_iomon_cb
  | Kbd_slide_iomon_cb
  | Lid_cover_iomon_cb
  | Proximity_sensor_iomon_cb
  | Usb_cable_iomon_cb
  | Lens_cover_iomon_cb

datatype trigger = Call_state_trigger | Alarm_ui_state_trigger | Submode_trigger

type_synonym iomon_id = nat

text \<open>
  The remaining macros of \<^verbatim>\<open>mce.h\<close> and \<^verbatim>\<open>event-switches.h\<close> whose values matter to the
  code: the string literals compared against the payload and the integer enumerators
  compared against the cached states. Every function below takes them as a parameter.
\<close>

record mce_h =
  MCE_CAM_LAUNCH_ACTIVE :: string
  MCE_FLICKER_KEY_ACTIVE :: string
  MCE_KBD_SLIDE_OPEN :: string
  MCE_LID_COVER_OPEN :: string
  MCE_PROXIMITY_SENSOR_OPEN :: string
  MCE_MUSB_OMAP3_USB_CABLE_CONNECTED :: string
  MCE_LENS_COVER_OPEN :: string
  CALL_STATE_INVALID :: call_state_t
  CALL_STATE_RINGING :: call_state_t
  CALL_STATE_ACTIVE :: call_state_t
  MCE_ALARM_UI_INVALID_INT32 :: alarm_ui_state_t
  MCE_ALARM_UI_VISIBLE_INT32 :: alarm_ui_state_t
  MCE_ALARM_UI_RINGING_INT32 :: alarm_ui_state_t
  MCE_NORMAL_SUBMODE :: submode_t
  MCE_TKLOCK_SUBMODE :: submode_t

section \<open>The outside world\<close>

text \<open>
  Every call that leaves the file is recorded, in program order, as an event. The
  results of the calls whose result the file inspects come from an environment.
\<close>

datatype event =
    Execute_datapipe datapipe indata
  | Write_string_to_file path string
  | Read_string_from_file path
  | Append_input_trigger datapipe trigger
  | Append_output_trigger datapipe trigger
  | Remove_input_trigger datapipe trigger
  | Remove_output_trigger datapipe trigger
  | Register_io_monitor_string path iomon_cb
  | Unregister_io_monitor "iomon_id option"
  | G_access path

record env =
  mce_read_string_from_file :: "path \<Rightarrow> string option"
  mce_register_io_monitor_string :: "path \<Rightarrow> iomon_id option"
  g_access_W_OK :: "path \<Rightarrow> bool"

section \<open>C strings\<close>

text \<open>
  A C string is the bytes up to the first NUL; a \<^typ>\<open>string\<close> stands for an array
  followed by its terminating NUL, so reading at its end yields NUL.
\<close>

definition NUL :: char where
  "NUL = CHR 0x00"

definition c_str :: "string \<Rightarrow> string" where
  "c_str s = takeWhile (\<lambda>c. c \<noteq> NUL) s"

definition strlen :: "string \<Rightarrow> nat" where
  "strlen s = length (c_str s)"

text \<open>
  \<^verbatim>\<open>strncmp\<close> compares at most \<^verbatim>\<open>n\<close> bytes as unsigned chars, stops after a NUL, and returns
  the difference at the first mismatch.
\<close>

definition byte_at_head :: "string \<Rightarrow> char" where
  "byte_at_head s = (case s of [] \<Rightarrow> NUL | c # _ \<Rightarrow> c)"

fun strncmp :: "string \<Rightarrow> string \<Rightarrow> nat \<Rightarrow> int" where
  "strncmp s1 s2 0 = 0"
| "strncmp s1 s2 (Suc n) =
     (let c1 = byte_at_head s1; c2 = byte_at_head s2 in
      if c1 \<noteq> c2 then int (of_char c1) - int (of_char c2)
      else if c1 = NUL then 0
      else strncmp (tl s1) (tl s2) n)"

section \<open>I/O monitor callbacks\<close>

text \<open>
  Each callback returns its \<^verbatim>\<open>gboolean\<close> and the calls it made, in program order. In the
  cover callbacks the first component of the pair is the state variable and the second
  the call made inside the branch.
\<close>

definition generic_activity_iomon_cb :: "string \<Rightarrow> gboolean \<times> event list" where
  "generic_activity_iomon_cb data =
     (False, [Execute_datapipe device_inactive_pipe (Gboolean False)])"

definition camera_launch_button_iomon_cb :: "mce_h \<Rightarrow> string \<Rightarrow> gboolean \<times> event list" where
  "camera_launch_button_iomon_cb h data =
     (let camera_button_state =
            (if strncmp data (MCE_CAM_LAUNCH_ACTIVE h) (strlen (MCE_CAM_LAUNCH_ACTIVE h)) = 0
             then CAMERA_BUTTON_LAUNCH else CAMERA_BUTTON_UNPRESSED)
      in (False,
          [Execute_datapipe device_inactive_pipe (Gboolean False),
           Execute_datapipe camera_button_pipe (Camera_button camera_button_state)]))"

definition lockkey_iomon_cb :: "mce_h \<Rightarrow> string \<Rightarrow> gboolean \<times> event list" where
  "lockkey_iomon_cb h data =
     (let lockkey_state =
            (if strncmp data (MCE_FLICKER_KEY_ACTIVE h) (strlen (MCE_FLICKER_KEY_ACTIVE h)) = 0
             then 1 else 0)
      in (False, [Execute_datapipe lockkey_pipe (Gint lockkey_state)]))"

definition kbd_slide_iomon_cb :: "mce_h \<Rightarrow> string \<Rightarrow> gboolean \<times> event list" where
  "kbd_slide_iomon_cb h data =
     (let (slide_state, t) =
            (if strncmp data (MCE_KBD_SLIDE_OPEN h) (strlen (MCE_KBD_SLIDE_OPEN h)) = 0
             then (COVER_OPEN, [Execute_datapipe device_inactive_pipe (Gboolean False)])
             else (COVER_CLOSED, []))
      in (False, t @ [Execute_datapipe keyboard_slide_pipe (Cover slide_state)]))"

definition lid_cover_iomon_cb :: "mce_h \<Rightarrow> string \<Rightarrow> gboolean \<times> event list" where
  "lid_cover_iomon_cb h data =
     (let (lid_cover_state, t) =
            (if strncmp data (MCE_LID_COVER_OPEN h) (strlen (MCE_LID_COVER_OPEN h)) = 0
             then (COVER_OPEN, [Execute_datapipe device_inactive_pipe (Gboolean False)])
             else (COVER_CLOSED, []))
      in (False, t @ [Execute_datapipe lid_cover_pipe (Cover lid_cover_state)]))"

definition proximity_sensor_iomon_cb :: "mce_h \<Rightarrow> string \<Rightarrow> gboolean \<times> event list" where
  "proximity_sensor_iomon_cb h data =
     (let proximity_sensor_state =
            (if strncmp data (MCE_PROXIMITY_SENSOR_OPEN h)
                  (strlen (MCE_PROXIMITY_SENSOR_OPEN h)) = 0
             then COVER_OPEN else COVER_CLOSED)
      in (False, [Execute_datapipe proximity_sensor_pipe (Cover proximity_sensor_state)]))"

definition usb_cable_iomon_cb :: "mce_h \<Rightarrow> string \<Rightarrow> gboolean \<times> event list" where
  "usb_cable_iomon_cb h data =
     (let cable_state =
            (if strncmp data (MCE_MUSB_OMAP3_USB_CABLE_CONNECTED h)
                  (strlen (MCE_MUSB_OMAP3_USB_CABLE_CONNECTED h)) = 0
             then USB_CABLE_CONNECTED else USB_CABLE_DISCONNECTED)
      in (False,
          [Execute_datapipe device_inactive_pipe (Gboolean False),
           Execute_datapipe usb_cable_pipe (Usb_cable cable_state)]))"

definition lens_cover_iomon_cb :: "mce_h \<Rightarrow> string \<Rightarrow> gboolean \<times> event list" where
  "lens_cover_iomon_cb h data =
     (let (lens_cover_state, t) =
            (if strncmp data (MCE_LENS_COVER_OPEN h) (strlen (MCE_LENS_COVER_OPEN h)) = 0
             then (COVER_OPEN, [Execute_datapipe device_inactive_pipe (Gboolean False)])
             else (COVER_CLOSED, []))
      in (False, t @ [Execute_datapipe lens_cover_pipe (Cover lens_cover_state)]))"

text \<open>The callback that \<^verbatim>\<open>mce_switches_init\<close> registers under each name.\<close>

fun run_iomon_cb :: "mce_h \<Rightarrow> iomon_cb \<Rightarrow> string \<Rightarrow> gboolean \<times> event list" where
  "run_iomon_cb h Generic_activity_iomon_cb data = generic_activity_iomon_cb data"
| "run_iomon_cb h Camera_launch_button_iomon_cb data = camera_launch_button_iomon_cb h data"
| "run_iomon_cb h Lockkey_iomon_cb data = lockkey_iomon_cb h data"
| "run_iomon_cb h Kbd_slide_iomon_cb data = kbd_slide_iomon_cb h data"
| "run_iomon_cb h Lid_cover_iomon_cb data = lid_cover_iomon_cb h data"
| "run_iomon_cb h Proximity_sensor_iomon_cb data = proximity_sensor_iomon_cb h data"
| "run_iomon_cb h Usb_cable_iomon_cb data = usb_cable_iomon_cb h data"
| "run_iomon_cb h Lens_cover_iomon_cb data = lens_cover_iomon_cb h data"

section \<open>The file's static variables\<close>

record switches_state =
  lockkey_iomon_id :: "iomon_id option"
  kbd_slide_iomon_id :: "iomon_id option"
  cam_focus_iomon_id :: "iomon_id option"
  cam_focus_disable_exists :: gboolean
  cam_launch_iomon_id :: "iomon_id option"
  lid_cover_iomon_id :: "iomon_id option"
  proximity_sensor_iomon_id :: "iomon_id option"
  proximity_sensor_disable_exists :: gboolean
  musb_omap3_usb_cable_iomon_id :: "iomon_id option"
  mmc0_cover_iomon_id :: "iomon_id option"
  mmc_cover_iomon_id :: "iomon_id option"
  lens_cover_iomon_id :: "iomon_id option"
  bat_cover_iomon_id :: "iomon_id option"
  call_state :: call_state_t
  alarm_ui_state :: alarm_ui_state_t
  has_flicker_key :: gboolean
  old_submode :: submode_t

text \<open>The initialisers of the statics; \<^verbatim>\<open>NULL\<close> is \<^term>\<open>None\<close>.\<close>

definition initial_state :: "mce_h \<Rightarrow> switches_state" where
  "initial_state h =
     \<lparr> lockkey_iomon_id = None,
       kbd_slide_iomon_id = None,
       cam_focus_iomon_id = None,
       cam_focus_disable_exists = False,
       cam_launch_iomon_id = None,
       lid_cover_iomon_id = None,
       proximity_sensor_iomon_id = None,
       proximity_sensor_disable_exists = False,
       musb_omap3_usb_cable_iomon_id = None,
       mmc0_cover_iomon_id = None,
       mmc_cover_iomon_id = None,
       lens_cover_iomon_id = None,
       bat_cover_iomon_id = None,
       call_state = CALL_STATE_INVALID h,
       alarm_ui_state = MCE_ALARM_UI_INVALID_INT32 h,
       has_flicker_key = False,
       old_submode = MCE_NORMAL_SUBMODE h \<rparr>"

section \<open>Proximity sensor\<close>

text \<open>
  \<^verbatim>\<open>status\<close> is initialised to \<^verbatim>\<open>FALSE\<close> and returned at \<^verbatim>\<open>EXIT\<close>; the function has no
  assignment to it in between.
\<close>

definition update_proximity_sensor_state :: "mce_h \<Rightarrow> env \<Rightarrow> gboolean \<times> event list" where
  "update_proximity_sensor_state h e =
     (let status = False in
      case mce_read_string_from_file e MCE_PROXIMITY_SENSOR_STATE_PATH of
        None \<Rightarrow> (status, [Read_string_from_file MCE_PROXIMITY_SENSOR_STATE_PATH])
      | Some tmp \<Rightarrow>
          (let proximity_sensor_state =
                 (if strncmp tmp (MCE_PROXIMITY_SENSOR_OPEN h)
                       (strlen (MCE_PROXIMITY_SENSOR_OPEN h)) = 0
                  then COVER_OPEN else COVER_CLOSED)
           in (status,
               [Read_string_from_file MCE_PROXIMITY_SENSOR_STATE_PATH,
                Execute_datapipe proximity_sensor_pipe (Cover proximity_sensor_state)])))"

definition update_proximity_monitor :: "mce_h \<Rightarrow> env \<Rightarrow> switches_state \<Rightarrow> event list" where
  "update_proximity_monitor h e s =
     (if proximity_sensor_disable_exists s = False then []
      else if call_state s = CALL_STATE_RINGING h \<or>
              call_state s = CALL_STATE_ACTIVE h \<or>
              alarm_ui_state s = MCE_ALARM_UI_VISIBLE_INT32 h \<or>
              alarm_ui_state s = MCE_ALARM_UI_RINGING_INT32 h
      then Write_string_to_file MCE_PROXIMITY_SENSOR_DISABLE_PATH ''0''
             # snd (update_proximity_sensor_state h e)
      else [Write_string_to_file MCE_PROXIMITY_SENSOR_DISABLE_PATH ''1''])"

section \<open>Datapipe triggers\<close>

definition call_state_trigger ::
  "mce_h \<Rightarrow> env \<Rightarrow> gint \<Rightarrow> switches_state \<Rightarrow> switches_state \<times> event list" where
  "call_state_trigger h e data s =
     (let s1 = s\<lparr>call_state := data\<rparr> in (s1, update_proximity_monitor h e s1))"

definition alarm_ui_state_trigger ::
  "mce_h \<Rightarrow> env \<Rightarrow> gint \<Rightarrow> switches_state \<Rightarrow> switches_state \<times> event list" where
  "alarm_ui_state_trigger h e data s =
     (let s1 = s\<lparr>alarm_ui_state := data\<rparr> in (s1, update_proximity_monitor h e s1))"

definition submode_trigger ::
  "mce_h \<Rightarrow> gint \<Rightarrow> switches_state \<Rightarrow> switches_state \<times> event list" where
  "submode_trigger h data s =
     (let submode = data;
          writes =
            (if submode AND MCE_TKLOCK_SUBMODE h \<noteq> 0 then
               (if old_submode s AND MCE_TKLOCK_SUBMODE h = 0 then
                  (if cam_focus_disable_exists s = True \<and> cam_focus_iomon_id s \<noteq> None
                   then [Write_string_to_file MCE_CAM_FOCUS_DISABLE_PATH ''1'']
                   else [])
                else [])
             else
               (if old_submode s AND MCE_TKLOCK_SUBMODE h \<noteq> 0 then
                  (if cam_focus_disable_exists s = True
                   then [Write_string_to_file MCE_CAM_FOCUS_DISABLE_PATH ''0'']
                   else [])
                else []))
      in (s\<lparr>old_submode := submode\<rparr>, writes))"

section \<open>Init and exit\<close>

text \<open>
  \<^verbatim>\<open>mce_switches_init\<close> in program order: the three triggers, the default lid cover
  state, the eleven registrations, the interlock, \<^verbatim>\<open>has_flicker_key\<close>, the two probes.
  The final \<^verbatim>\<open>errno = 0\<close> touches nothing that the file reads and is left out.
\<close>

definition mce_switches_init ::
  "mce_h \<Rightarrow> env \<Rightarrow> switches_state \<Rightarrow> gboolean \<times> switches_state \<times> event list" where
  "mce_switches_init h e s =
     (let reg = mce_register_io_monitor_string e;
          t1 = [Append_input_trigger call_state_pipe Call_state_trigger,
                Append_input_trigger alarm_ui_state_pipe Alarm_ui_state_trigger,
                Append_output_trigger submode_pipe Submode_trigger,
                Execute_datapipe lid_cover_pipe (Cover COVER_OPEN)];
          s1 = s\<lparr>lockkey_iomon_id := reg MCE_FLICKER_KEY_STATE_PATH,
                 kbd_slide_iomon_id := reg MCE_KBD_SLIDE_STATE_PATH,
                 cam_focus_iomon_id := reg MCE_CAM_FOCUS_STATE_PATH,
                 cam_launch_iomon_id := reg MCE_CAM_LAUNCH_STATE_PATH,
                 lid_cover_iomon_id := reg MCE_LID_COVER_STATE_PATH,
                 proximity_sensor_iomon_id := reg MCE_PROXIMITY_SENSOR_STATE_PATH,
                 musb_omap3_usb_cable_iomon_id := reg MCE_MUSB_OMAP3_USB_CABLE_STATE_PATH,
                 lens_cover_iomon_id := reg MCE_LENS_COVER_STATE_PATH,
                 mmc0_cover_iomon_id := reg MCE_MMC0_COVER_STATE_PATH,
                 mmc_cover_iomon_id := reg MCE_MMC_COVER_STATE_PATH,
                 bat_cover_iomon_id := reg MCE_BATTERY_COVER_STATE_PATH\<rparr>;
          t2 = [Register_io_monitor_string MCE_FLICKER_KEY_STATE_PATH Lockkey_iomon_cb,
                Register_io_monitor_string MCE_KBD_SLIDE_STATE_PATH Kbd_slide_iomon_cb,
                Register_io_monitor_string MCE_CAM_FOCUS_STATE_PATH Generic_activity_iomon_cb,
                Register_io_monitor_string MCE_CAM_LAUNCH_STATE_PATH
                  Camera_launch_button_iomon_cb,
                Register_io_monitor_string MCE_LID_COVER_STATE_PATH Lid_cover_iomon_cb,
                Register_io_monitor_string MCE_PROXIMITY_SENSOR_STATE_PATH
                  Proximity_sensor_iomon_cb,
                Register_io_monitor_string MCE_MUSB_OMAP3_USB_CABLE_STATE_PATH
                  Usb_cable_iomon_cb,
                Register_io_monitor_string MCE_LENS_COVER_STATE_PATH Lens_cover_iomon_cb,
                Register_io_monitor_string MCE_MMC0_COVER_STATE_PATH
                  Generic_activity_iomon_cb,
                Register_io_monitor_string MCE_MMC_COVER_STATE_PATH Generic_activity_iomon_cb,
                Register_io_monitor_string MCE_BATTERY_COVER_STATE_PATH
                  Generic_activity_iomon_cb];
          t3 = update_proximity_monitor h e s1;
          s2 = (if lockkey_iomon_id s1 \<noteq> None then s1\<lparr>has_flicker_key := True\<rparr> else s1);
          s3 = s2\<lparr>proximity_sensor_disable_exists :=
                    g_access_W_OK e MCE_PROXIMITY_SENSOR_DISABLE_PATH\<rparr>;
          s4 = s3\<lparr>cam_focus_disable_exists := g_access_W_OK e MCE_CAM_FOCUS_DISABLE_PATH\<rparr>;
          t4 = [G_access MCE_PROXIMITY_SENSOR_DISABLE_PATH, G_access MCE_CAM_FOCUS_DISABLE_PATH];
          status = True
      in (status, s4, t1 @ t2 @ t3 @ t4))"

definition mce_switches_exit :: "switches_state \<Rightarrow> event list" where
  "mce_switches_exit s =
     [Remove_output_trigger submode_pipe Submode_trigger,
      Remove_input_trigger alarm_ui_state_pipe Alarm_ui_state_trigger,
      Remove_input_trigger call_state_pipe Call_state_trigger,
      Unregister_io_monitor (bat_cover_iomon_id s),
      Unregister_io_monitor (mmc_cover_iomon_id s),
      Unregister_io_monitor (mmc0_cover_iomon_id s),
      Unregister_io_monitor (lens_cover_iomon_id s),
      Unregister_io_monitor (musb_omap3_usb_cable_iomon_id s),
      Unregister_io_monitor (proximity_sensor_iomon_id s),
      Unregister_io_monitor (lid_cover_iomon_id s),
      Unregister_io_monitor (cam_launch_iomon_id s),
      Unregister_io_monitor (cam_focus_iomon_id s),
      Unregister_io_monitor (kbd_slide_iomon_id s),
      Unregister_io_monitor (lockkey_iomon_id s)]"

section \<open>Reading a trace\<close>

definition published :: "datapipe \<Rightarrow> event list \<Rightarrow> indata list" where
  "published p tr = concat (map (\<lambda>ev. case ev of Execute_datapipe q v \<Rightarrow> (if q = p then [v] else []) | _ \<Rightarrow> []) tr)"

definition written :: "path \<Rightarrow> event list \<Rightarrow> string list" where
  "written p tr = concat (map (\<lambda>ev. case ev of Write_string_to_file q v \<Rightarrow> (if q = p then [v] else []) | _ \<Rightarrow> []) tr)"

definition registrations :: "event list \<Rightarrow> (path \<times> iomon_cb) list" where
  "registrations tr =
     concat (map (\<lambda>ev. case ev of Register_io_monitor_string p cb \<Rightarrow> [(p, cb)] | _ \<Rightarrow> []) tr)"

section \<open>Delivering a sequence of submode updates\<close>

text \<open>The datapipe calls \<^verbatim>\<open>submode_trigger\<close> once per update, in order.\<close>

fun submode_updates ::
  "mce_h \<Rightarrow> gint list \<Rightarrow> switches_state \<Rightarrow> switches_state \<times> event list" where
  "submode_updates h [] s = (s, [])"
| "submode_updates h (d # ds) s =
     (let (s1, t1) = submode_trigger h d s;
          (s2, t2) = submode_updates h ds s1
      in (s2, t1 @ t2))"

section \<open>The specification's vocabulary\<close>

text \<open>
  The following definitions are written from the words of the specification, to be
  compared with the functions above.

  ``sensor needed'': the call state is Ringing or Active, or the alarm UI state is
  Visible or Ringing.
\<close>

definition sensor_needed :: "mce_h \<Rightarrow> call_state_t \<Rightarrow> alarm_ui_state_t \<Rightarrow> bool" where
  "sensor_needed h cs al =
     (cs \<in> {CALL_STATE_RINGING h, CALL_STATE_ACTIVE h} \<or>
      al \<in> {MCE_ALARM_UI_VISIBLE_INT32 h, MCE_ALARM_UI_RINGING_INT32 h})"

text \<open>The proximity command of the specification: ``0'' enables, ``1'' disables.\<close>

definition spec_proximity_command ::
  "mce_h \<Rightarrow> bool \<Rightarrow> call_state_t \<Rightarrow> alarm_ui_state_t \<Rightarrow> string list" where
  "spec_proximity_command h exists cs al =
     (if exists then (if sensor_needed h cs al then [''0''] else [''1'']) else [])"

text \<open>The lock (tklock) bit of a submode.\<close>

definition lock_bit :: "mce_h \<Rightarrow> submode_t \<Rightarrow> bool" where
  "lock_bit h m = (m AND MCE_TKLOCK_SUBMODE h \<noteq> 0)"

text \<open>
  The edge-only camera interlock of the specification: one write of ``1'' per rising
  edge of the lock bit, one write of ``0'' per falling edge, nothing otherwise.
\<close>

fun spec_edge_writes :: "mce_h \<Rightarrow> submode_t \<Rightarrow> submode_t list \<Rightarrow> event list" where
  "spec_edge_writes h old [] = []"
| "spec_edge_writes h old (d # ds) =
     (if lock_bit h d \<and> \<not> lock_bit h old
        then [Write_string_to_file MCE_CAM_FOCUS_DISABLE_PATH ''1'']
      else if lock_bit h old \<and> \<not> lock_bit h d
        then [Write_string_to_file MCE_CAM_FOCUS_DISABLE_PATH ''0'']
      else [])
     @ spec_edge_writes h d ds"

section \<open>Concrete inputs\<close>

text \<open>
  One assignment of the header constants, with ``open'' as the lid cover literal and
  bit 1 as the lock bit, for evaluating the functions at concrete inputs.
\<close>

definition sample_h :: mce_h where
  "sample_h =
     \<lparr> MCE_CAM_LAUNCH_ACTIVE = ''active'',
       MCE_FLICKER_KEY_ACTIVE = ''closed'',
       MCE_KBD_SLIDE_OPEN = ''open'',
       MCE_LID_COVER_OPEN = ''open'',
       MCE_PROXIMITY_SENSOR_OPEN = ''open'',
       MCE_MUSB_OMAP3_USB_CABLE_CONNECTED = ''1'',
       MCE_LENS_COVER_OPEN = ''open'',
       CALL_STATE_INVALID = - 1,
       CALL_STATE_RINGING = 1,
       CALL_STATE_ACTIVE = 2,
       MCE_ALARM_UI_INVALID_INT32 = - 1,
       MCE_ALARM_UI_VISIBLE_INT32 = 2,
       MCE_ALARM_UI_RINGING_INT32 = 1,
       MCE_NORMAL_SUBMODE = 0,
       MCE_TKLOCK_SUBMODE = 2 \<rparr>"

text \<open>
  An environment in which the proximity state file reads ``open'', both control
  surfaces are writable, and only the lock key source can be opened.
\<close>

definition sample_env :: env where
  "sample_env =
     \<lparr> mce_read_string_from_file = (\<lambda>p. Some ''open''),
       mce_register_io_monitor_string =
         (\<lambda>p. if p = MCE_FLICKER_KEY_STATE_PATH then Some 1 else None),
       g_access_W_OK = (\<lambda>p. True) \<rparr>"

text \<open>An environment in which nothing can be read, opened or written.\<close>

definition barren_env :: env where
  "barren_env =
     \<lparr> mce_read_string_from_file = (\<lambda>p. None),
       mce_register_io_monitor_string = (\<lambda>p. None),
       g_access_W_OK = (\<lambda>p. False) \<rparr>"

text \<open>The state after a start-up that found everything present.\<close>

definition running_state :: switches_state where
  "running_state =
     (initial_state sample_h)
       \<lparr> cam_focus_iomon_id := Some 3,
         cam_focus_disable_exists := True,
         proximity_sensor_disable_exists := True \<rparr>"

section \<open>Auxiliary facts\<close>

lemma strncmp_prefix: "(strncmp d lit (strlen lit) = 0) = prefix (c_str lit) d"
proof (induction lit arbitrary: d)
  case Nil
  show ?case by (simp add: strlen_def c_str_def)
next
  case (Cons c cs)
  show ?case
  proof (cases "c = NUL")
    case True
    then show ?thesis by (simp add: strlen_def c_str_def)
  next
    case False
    have len: "strlen (c # cs) = Suc (strlen cs)" and cs: "c_str (c # cs) = c # c_str cs"
      using False by (simp_all add: strlen_def c_str_def)
    show ?thesis
    proof (cases d)
      case Nil
      with False show ?thesis
        by (simp add: len cs byte_at_head_def)
    next
      case (Cons x xs)
      with False Cons.IH [of xs] show ?thesis
        by (simp add: len cs byte_at_head_def Let_def)
    qed
  qed
qed

lemma c_str_simps [simp]:
  "c_str [] = []"
  "c_str (c # cs) = (if c = NUL then [] else c # c_str cs)"
  by (simp_all add: c_str_def)

lemma published_simps [simp]:
  "published p [] = []"
  "published p (Execute_datapipe q v # tr) =
     (if q = p then v # published p tr else published p tr)"
  "published p (Write_string_to_file f x # tr) = published p tr"
  "published p (Read_string_from_file f # tr) = published p tr"
  by (simp_all add: published_def)

lemma written_simps [simp]:
  "written p [] = []"
  "written p (Write_string_to_file q v # tr) =
     (if q = p then v # written p tr else written p tr)"
  "written p (Execute_datapipe d x # tr) = written p tr"
  "written p (Read_string_from_file f # tr) = written p tr"
  "written p (Append_input_trigger d t # tr) = written p tr"
  "written p (Append_output_trigger d t # tr) = written p tr"
  "written p (Register_io_monitor_string f c # tr) = written p tr"
  "written p (G_access f # tr) = written p tr"
  "written p (tr @ tr') = written p tr @ written p tr'"
  by (simp_all add: written_def)

lemma registrations_simps [simp]:
  "registrations [] = []"
  "registrations (Register_io_monitor_string p cb # tr) = (p, cb) # registrations tr"
  "registrations (Write_string_to_file q v # tr) = registrations tr"
  "registrations (Execute_datapipe d x # tr) = registrations tr"
  "registrations (Read_string_from_file f # tr) = registrations tr"
  "registrations (Append_input_trigger d t # tr) = registrations tr"
  "registrations (Append_output_trigger d t # tr) = registrations tr"
  "registrations (G_access f # tr) = registrations tr"
  "registrations (tr @ tr') = registrations tr @ registrations tr'"
  by (simp_all add: registrations_def)

text \<open>What the synchronous refresh does, by the outcome of the read.\<close>

lemma refresh_trace:
  "snd (update_proximity_sensor_state h e) =
     Read_string_from_file MCE_PROXIMITY_SENSOR_STATE_PATH #
       (case mce_read_string_from_file e MCE_PROXIMITY_SENSOR_STATE_PATH of
          None \<Rightarrow> []
        | Some tmp \<Rightarrow>
            [Execute_datapipe proximity_sensor_pipe
               (Cover (if prefix (c_str (MCE_PROXIMITY_SENSOR_OPEN h)) tmp
                       then COVER_OPEN else COVER_CLOSED))])"
  by (simp add: update_proximity_sensor_state_def strncmp_prefix split: option.split)

lemma refresh_writes_nothing [simp]:
  "written p (snd (update_proximity_sensor_state h e)) = []"
  by (simp add: refresh_trace split: option.split)

lemma refresh_registers_nothing [simp]:
  "registrations (snd (update_proximity_sensor_state h e)) = []"
  by (simp add: refresh_trace split: option.split)

lemma refresh_status_always_false: "fst (update_proximity_sensor_state h e) = False"
  by (simp add: update_proximity_sensor_state_def Let_def split: option.split)

lemma refresh_read_failure:
  "mce_read_string_from_file e MCE_PROXIMITY_SENSOR_STATE_PATH = None \<Longrightarrow>
   update_proximity_sensor_state h e =
     (False, [Read_string_from_file MCE_PROXIMITY_SENSOR_STATE_PATH])"
  by (simp add: update_proximity_sensor_state_def)

lemma monitor_registers_nothing [simp]:
  "registrations (update_proximity_monitor h e s) = []"
  by (simp add: update_proximity_monitor_def)

text \<open>The command that the interlock writes depends on three cached values only.\<close>

lemma monitor_writes:
  "written MCE_PROXIMITY_SENSOR_DISABLE_PATH (update_proximity_monitor h e s) =
     spec_proximity_command h (proximity_sensor_disable_exists s) (call_state s)
       (alarm_ui_state s)"
  by (simp add: update_proximity_monitor_def spec_proximity_command_def sensor_needed_def)

text \<open>The registration table of \<^verbatim>\<open>mce_switches_init\<close>, whatever the registrations return.\<close>

lemma init_registrations:
  "registrations (snd (snd (mce_switches_init h e s))) =
     [(MCE_FLICKER_KEY_STATE_PATH, Lockkey_iomon_cb),
      (MCE_KBD_SLIDE_STATE_PATH, Kbd_slide_iomon_cb),
      (MCE_CAM_FOCUS_STATE_PATH, Generic_activity_iomon_cb),
      (MCE_CAM_LAUNCH_STATE_PATH, Camera_launch_button_iomon_cb),
      (MCE_LID_COVER_STATE_PATH, Lid_cover_iomon_cb),
      (MCE_PROXIMITY_SENSOR_STATE_PATH, Proximity_sensor_iomon_cb),
      (MCE_MUSB_OMAP3_USB_CABLE_STATE_PATH, Usb_cable_iomon_cb),
      (MCE_LENS_COVER_STATE_PATH, Lens_cover_iomon_cb),
      (MCE_MMC0_COVER_STATE_PATH, Generic_activity_iomon_cb),
      (MCE_MMC_COVER_STATE_PATH, Generic_activity_iomon_cb),
      (MCE_BATTERY_COVER_STATE_PATH, Generic_activity_iomon_cb)]"
  by (simp add: mce_switches_init_def Let_def)

text \<open>
  A start-up from the initialisers of the statics writes to no file: the interlock runs
  while \<^verbatim>\<open>proximity_sensor_disable_exists\<close> still holds its initialiser.
\<close>

lemma init_from_initial_state_writes_nothing:
  "written p (snd (snd (mce_switches_init h e (initial_state h)))) = []"
  by (simp add: mce_switches_init_def Let_def update_proximity_monitor_def initial_state_def)

text \<open>One submode update, and a sequence of them, against the specification's edges.\<close>

lemma submode_trigger_edge:
  "cam_focus_disable_exists s \<Longrightarrow> cam_focus_iomon_id s \<noteq> None \<Longrightarrow>
   submode_trigger h d s = (s\<lparr>old_submode := d\<rparr>, spec_edge_writes h (old_submode s) [d])"
  by (simp add: submode_trigger_def lock_bit_def Let_def)

lemma submode_updates_edges:
  "cam_focus_disable_exists s \<Longrightarrow> cam_focus_iomon_id s \<noteq> None \<Longrightarrow>
   submode_updates h ds s =
     (s\<lparr>old_submode := last (old_submode s # ds)\<rparr>, spec_edge_writes h (old_submode s) ds)"
proof (induction ds arbitrary: s)
  case Nil
  then show ?case by simp
next
  case (Cons d ds)
  have step: "submode_trigger h d s =
      (s\<lparr>old_submode := d\<rparr>, spec_edge_writes h (old_submode s) [d])"
    using Cons.prems by (rule submode_trigger_edge)
  have rest: "submode_updates h ds (s\<lparr>old_submode := d\<rparr>) =
      (s\<lparr>old_submode := last (d # ds)\<rparr>, spec_edge_writes h d ds)"
    using Cons.IH [of "s\<lparr>old_submode := d\<rparr>"] Cons.prems by simp
  show ?case
    by (simp add: step rest del: spec_edge_writes.simps(2) last.simps) simp
qed

section \<open>Payload classification\<close>

text \<open>
  C3. Each translator that classifies its payload publishes exactly one typed value on
  its own pipe; that value is the positive one (launch, 1, open, connected) if and only
  if the payload begins with the translator's active literal, compared byte for byte,
  and the negative one for every other payload, the empty one included. No third value
  is ever published. (The literal is what C sees of the macro: the bytes before its first
  NUL. The four sources served by the generic activity callback have no literal and
  classify nothing.)
\<close>

theorem translator_prefix_classification:
  "published camera_button_pipe (snd (camera_launch_button_iomon_cb h data)) =
     [Camera_button (if prefix (c_str (MCE_CAM_LAUNCH_ACTIVE h)) data
                     then CAMERA_BUTTON_LAUNCH else CAMERA_BUTTON_UNPRESSED)] \<and>
   published lockkey_pipe (snd (lockkey_iomon_cb h data)) =
     [Gint (if prefix (c_str (MCE_FLICKER_KEY_ACTIVE h)) data then 1 else 0)] \<and>
   published keyboard_slide_pipe (snd (kbd_slide_iomon_cb h data)) =
     [Cover (if prefix (c_str (MCE_KBD_SLIDE_OPEN h)) data then COVER_OPEN else COVER_CLOSED)] \<and>
   published lid_cover_pipe (snd (lid_cover_iomon_cb h data)) =
     [Cover (if prefix (c_str (MCE_LID_COVER_OPEN h)) data then COVER_OPEN else COVER_CLOSED)] \<and>
   published proximity_sensor_pipe (snd (proximity_sensor_iomon_cb h data)) =
     [Cover (if prefix (c_str (MCE_PROXIMITY_SENSOR_OPEN h)) data
             then COVER_OPEN else COVER_CLOSED)] \<and>
   published usb_cable_pipe (snd (usb_cable_iomon_cb h data)) =
     [Usb_cable (if prefix (c_str (MCE_MUSB_OMAP3_USB_CABLE_CONNECTED h)) data
                 then USB_CABLE_CONNECTED else USB_CABLE_DISCONNECTED)] \<and>
   published lens_cover_pipe (snd (lens_cover_iomon_cb h data)) =
     [Cover (if prefix (c_str (MCE_LENS_COVER_OPEN h)) data then COVER_OPEN else COVER_CLOSED)]"
  by (simp add: camera_launch_button_iomon_cb_def lockkey_iomon_cb_def kbd_slide_iomon_cb_def
      lid_cover_iomon_cb_def proximity_sensor_iomon_cb_def usb_cable_iomon_cb_def
      lens_cover_iomon_cb_def strncmp_prefix)

theorem translator_prefix_classification_witness:
  "published lid_cover_pipe (snd (lid_cover_iomon_cb sample_h ''open'')) = [Cover COVER_OPEN] \<and>
   published lid_cover_pipe (snd (lid_cover_iomon_cb sample_h ''opened'')) = [Cover COVER_OPEN] \<and>
   published lid_cover_pipe (snd (lid_cover_iomon_cb sample_h ''Open'')) = [Cover COVER_CLOSED] \<and>
   published lid_cover_pipe (snd (lid_cover_iomon_cb sample_h ''ope'')) = [Cover COVER_CLOSED] \<and>
   published lid_cover_pipe (snd (lid_cover_iomon_cb sample_h [])) = [Cover COVER_CLOSED] \<and>
   published usb_cable_pipe (snd (usb_cable_iomon_cb sample_h ''1'')) =
     [Usb_cable USB_CABLE_CONNECTED] \<and>
   published lockkey_pipe (snd (lockkey_iomon_cb sample_h ''open'')) = [Gint 0]"
  using translator_prefix_classification [of sample_h "''open''"]
    translator_prefix_classification [of sample_h "''opened''"]
    translator_prefix_classification [of sample_h "''Open''"]
    translator_prefix_classification [of sample_h "''ope''"]
    translator_prefix_classification [of sample_h "[]"]
    translator_prefix_classification [of sample_h "''1''"]
  by (simp add: sample_h_def NUL_def)

section \<open>Activity signal\<close>

text \<open>
  C4. The activity signal is the publication of \<^verbatim>\<open>FALSE\<close> on the device-inactive pipe.
  For every payload: the lid cover, keyboard slide and lens cover callbacks publish it
  exactly when the payload begins with their literal, which is exactly when the state
  they publish on their own pipe is \<^verbatim>\<open>COVER_OPEN\<close>; the USB cable and camera launch button
  callbacks publish it always; the proximity sensor callback makes one call only, the
  cover state on the proximity pipe, and the lock key callback one call only, 0 or 1 on
  the lock key pipe. \<^verbatim>\<open>mce_switches_init\<close> registers the camera focus, MMC0 cover, MMC cover
  and battery cover paths once each, all four with the generic activity callback, and
  that callback makes one call only, the activity signal, whatever the payload.
\<close>

theorem activity_policy:
  "published device_inactive_pipe (snd (lid_cover_iomon_cb h data)) =
     (if prefix (c_str (MCE_LID_COVER_OPEN h)) data then [Gboolean False] else []) \<and>
   published lid_cover_pipe (snd (lid_cover_iomon_cb h data)) =
     [Cover (if prefix (c_str (MCE_LID_COVER_OPEN h)) data then COVER_OPEN else COVER_CLOSED)] \<and>
   published device_inactive_pipe (snd (kbd_slide_iomon_cb h data)) =
     (if prefix (c_str (MCE_KBD_SLIDE_OPEN h)) data then [Gboolean False] else []) \<and>
   published keyboard_slide_pipe (snd (kbd_slide_iomon_cb h data)) =
     [Cover (if prefix (c_str (MCE_KBD_SLIDE_OPEN h)) data then COVER_OPEN else COVER_CLOSED)] \<and>
   published device_inactive_pipe (snd (lens_cover_iomon_cb h data)) =
     (if prefix (c_str (MCE_LENS_COVER_OPEN h)) data then [Gboolean False] else []) \<and>
   published lens_cover_pipe (snd (lens_cover_iomon_cb h data)) =
     [Cover (if prefix (c_str (MCE_LENS_COVER_OPEN h)) data then COVER_OPEN else COVER_CLOSED)] \<and>
   published device_inactive_pipe (snd (usb_cable_iomon_cb h data)) = [Gboolean False] \<and>
   published device_inactive_pipe (snd (camera_launch_button_iomon_cb h data)) =
     [Gboolean False] \<and>
   snd (proximity_sensor_iomon_cb h data) =
     [Execute_datapipe proximity_sensor_pipe
        (Cover (if prefix (c_str (MCE_PROXIMITY_SENSOR_OPEN h)) data
                then COVER_OPEN else COVER_CLOSED))] \<and>
   snd (lockkey_iomon_cb h data) =
     [Execute_datapipe lockkey_pipe
        (Gint (if prefix (c_str (MCE_FLICKER_KEY_ACTIVE h)) data then 1 else 0))] \<and>
   filter (\<lambda>(p, cb). p \<in> {MCE_CAM_FOCUS_STATE_PATH, MCE_MMC0_COVER_STATE_PATH,
                          MCE_MMC_COVER_STATE_PATH, MCE_BATTERY_COVER_STATE_PATH})
       (registrations (snd (snd (mce_switches_init h e s)))) =
     [(MCE_CAM_FOCUS_STATE_PATH, Generic_activity_iomon_cb),
      (MCE_MMC0_COVER_STATE_PATH, Generic_activity_iomon_cb),
      (MCE_MMC_COVER_STATE_PATH, Generic_activity_iomon_cb),
      (MCE_BATTERY_COVER_STATE_PATH, Generic_activity_iomon_cb)] \<and>
   snd (run_iomon_cb h Generic_activity_iomon_cb data) =
     [Execute_datapipe device_inactive_pipe (Gboolean False)] \<and>
   snd (generic_activity_iomon_cb data) =
     [Execute_datapipe device_inactive_pipe (Gboolean False)]"
  by (simp add: init_registrations)
    (simp add: generic_activity_iomon_cb_def camera_launch_button_iomon_cb_def
      lockkey_iomon_cb_def kbd_slide_iomon_cb_def lid_cover_iomon_cb_def
      proximity_sensor_iomon_cb_def usb_cable_iomon_cb_def lens_cover_iomon_cb_def
      strncmp_prefix)

theorem activity_policy_witness:
  "published device_inactive_pipe (snd (lid_cover_iomon_cb sample_h ''open'')) =
     [Gboolean False] \<and>
   published device_inactive_pipe (snd (lid_cover_iomon_cb sample_h ''closed'')) = [] \<and>
   published device_inactive_pipe (snd (kbd_slide_iomon_cb sample_h ''open'')) =
     [Gboolean False] \<and>
   published device_inactive_pipe (snd (kbd_slide_iomon_cb sample_h ''closed'')) = [] \<and>
   published device_inactive_pipe (snd (lens_cover_iomon_cb sample_h ''open'')) =
     [Gboolean False] \<and>
   published device_inactive_pipe (snd (lens_cover_iomon_cb sample_h ''closed'')) = [] \<and>
   published keyboard_slide_pipe (snd (kbd_slide_iomon_cb sample_h ''open'')) =
     [Cover COVER_OPEN] \<and>
   published lens_cover_pipe (snd (lens_cover_iomon_cb sample_h ''closed'')) =
     [Cover COVER_CLOSED] \<and>
   published device_inactive_pipe (snd (usb_cable_iomon_cb sample_h ''closed'')) =
     [Gboolean False] \<and>
   published device_inactive_pipe (snd (camera_launch_button_iomon_cb sample_h ''closed'')) =
     [Gboolean False] \<and>
   snd (proximity_sensor_iomon_cb sample_h ''open'') =
     [Execute_datapipe proximity_sensor_pipe (Cover COVER_OPEN)] \<and>
   snd (lockkey_iomon_cb sample_h ''closed'') = [Execute_datapipe lockkey_pipe (Gint 1)] \<and>
   snd (lockkey_iomon_cb sample_h ''open'') = [Execute_datapipe lockkey_pipe (Gint 0)] \<and>
   filter (\<lambda>(p, cb). p \<in> {MCE_CAM_FOCUS_STATE_PATH, MCE_MMC0_COVER_STATE_PATH,
                          MCE_MMC_COVER_STATE_PATH, MCE_BATTERY_COVER_STATE_PATH})
       (registrations (snd (snd (mce_switches_init sample_h barren_env
          (initial_state sample_h))))) =
     [(MCE_CAM_FOCUS_STATE_PATH, Generic_activity_iomon_cb),
      (MCE_MMC0_COVER_STATE_PATH, Generic_activity_iomon_cb),
      (MCE_MMC_COVER_STATE_PATH, Generic_activity_iomon_cb),
      (MCE_BATTERY_COVER_STATE_PATH, Generic_activity_iomon_cb)] \<and>
   snd (run_iomon_cb sample_h Generic_activity_iomon_cb ''closed'') =
     [Execute_datapipe device_inactive_pipe (Gboolean False)]"
  using activity_policy [of sample_h "''open''" barren_env "initial_state sample_h"]
    activity_policy [of sample_h "''closed''" barren_env "initial_state sample_h"]
  by (simp add: sample_h_def NUL_def)

text \<open>
  C10. A callback that publishes both the activity signal and a typed state publishes the
  activity signal first: the USB cable and camera launch button callbacks for every
  payload, the lid cover, keyboard slide and lens cover callbacks whenever the payload
  begins with their literal (otherwise they publish the closed state alone).
\<close>

theorem activity_before_state:
  "snd (usb_cable_iomon_cb h data) =
     [Execute_datapipe device_inactive_pipe (Gboolean False),
      Execute_datapipe usb_cable_pipe
        (Usb_cable (if prefix (c_str (MCE_MUSB_OMAP3_USB_CABLE_CONNECTED h)) data
                    then USB_CABLE_CONNECTED else USB_CABLE_DISCONNECTED))] \<and>
   snd (camera_launch_button_iomon_cb h data) =
     [Execute_datapipe device_inactive_pipe (Gboolean False),
      Execute_datapipe camera_button_pipe
        (Camera_button (if prefix (c_str (MCE_CAM_LAUNCH_ACTIVE h)) data
                        then CAMERA_BUTTON_LAUNCH else CAMERA_BUTTON_UNPRESSED))] \<and>
   snd (lid_cover_iomon_cb h data) =
     (if prefix (c_str (MCE_LID_COVER_OPEN h)) data
      then [Execute_datapipe device_inactive_pipe (Gboolean False),
            Execute_datapipe lid_cover_pipe (Cover COVER_OPEN)]
      else [Execute_datapipe lid_cover_pipe (Cover COVER_CLOSED)]) \<and>
   snd (kbd_slide_iomon_cb h data) =
     (if prefix (c_str (MCE_KBD_SLIDE_OPEN h)) data
      then [Execute_datapipe device_inactive_pipe (Gboolean False),
            Execute_datapipe keyboard_slide_pipe (Cover COVER_OPEN)]
      else [Execute_datapipe keyboard_slide_pipe (Cover COVER_CLOSED)]) \<and>
   snd (lens_cover_iomon_cb h data) =
     (if prefix (c_str (MCE_LENS_COVER_OPEN h)) data
      then [Execute_datapipe device_inactive_pipe (Gboolean False),
            Execute_datapipe lens_cover_pipe (Cover COVER_OPEN)]
      else [Execute_datapipe lens_cover_pipe (Cover COVER_CLOSED)])"
  by (simp add: camera_launch_button_iomon_cb_def kbd_slide_iomon_cb_def
      lid_cover_iomon_cb_def usb_cable_iomon_cb_def lens_cover_iomon_cb_def strncmp_prefix)

theorem activity_before_state_witness:
  "snd (usb_cable_iomon_cb sample_h ''0'') =
     [Execute_datapipe device_inactive_pipe (Gboolean False),
      Execute_datapipe usb_cable_pipe (Usb_cable USB_CABLE_DISCONNECTED)] \<and>
   snd (camera_launch_button_iomon_cb sample_h ''active'') =
     [Execute_datapipe device_inactive_pipe (Gboolean False),
      Execute_datapipe camera_button_pipe (Camera_button CAMERA_BUTTON_LAUNCH)] \<and>
   snd (kbd_slide_iomon_cb sample_h ''open'') =
     [Execute_datapipe device_inactive_pipe (Gboolean False),
      Execute_datapipe keyboard_slide_pipe (Cover COVER_OPEN)] \<and>
   snd (lens_cover_iomon_cb sample_h ''closed'') =
     [Execute_datapipe lens_cover_pipe (Cover COVER_CLOSED)]"
  using activity_before_state [of sample_h "''0''"]
    activity_before_state [of sample_h "''active''"]
    activity_before_state [of sample_h "''open''"]
    activity_before_state [of sample_h "''closed''"]
  by (simp add: sample_h_def NUL_def)

section \<open>Proximity interlock\<close>



text \<open>
  C5. The status of the synchronous refresh. With a state file that reads ``open'', the
  refresh publishes \<^verbatim>\<open>COVER_OPEN\<close> on the proximity pipe and still returns \<^verbatim>\<open>FALSE\<close>, the
  value it returns when the read fails: the status is never set to \<^verbatim>\<open>TRUE\<close>
  (\<open>refresh_status_always_false\<close>), although the function's comment promises
  \<^verbatim>\<open>TRUE\<close> on success.
\<close>

theorem refresh_reports_failure_on_success:
  "mce_read_string_from_file sample_env MCE_PROXIMITY_SENSOR_STATE_PATH = Some ''open'' \<and>
   update_proximity_sensor_state sample_h sample_env =
     (False,
      [Read_string_from_file MCE_PROXIMITY_SENSOR_STATE_PATH,
       Execute_datapipe proximity_sensor_pipe (Cover COVER_OPEN)])"
  by (simp add: update_proximity_sensor_state_def strncmp_prefix sample_h_def sample_env_def
      NUL_def)

text \<open>
  C7. Delivering a call state or alarm UI state equal to the cached one leaves the statics
  as they were, and the command written to the proximity control is the same as at any
  other recomputation in that state: it is \<open>spec_proximity_command\<close> of the capability
  flag, the call state and the alarm UI state, whatever the environment.
\<close>

theorem proximity_interlock_idempotent:
  "fst (call_state_trigger h e (call_state s) s) = s \<and>
   fst (alarm_ui_state_trigger h e (alarm_ui_state s) s) = s \<and>
   written MCE_PROXIMITY_SENSOR_DISABLE_PATH (snd (call_state_trigger h e (call_state s) s)) =
     spec_proximity_command h (proximity_sensor_disable_exists s) (call_state s)
       (alarm_ui_state s) \<and>
   written MCE_PROXIMITY_SENSOR_DISABLE_PATH
       (snd (alarm_ui_state_trigger h e (alarm_ui_state s) s)) =
     spec_proximity_command h (proximity_sensor_disable_exists s) (call_state s)
       (alarm_ui_state s) \<and>
   written MCE_PROXIMITY_SENSOR_DISABLE_PATH (update_proximity_monitor h e' s) =
     spec_proximity_command h (proximity_sensor_disable_exists s) (call_state s)
       (alarm_ui_state s)"
  by (simp add: call_state_trigger_def alarm_ui_state_trigger_def monitor_writes)

theorem proximity_interlock_idempotent_witness:
  "fst (call_state_trigger sample_h barren_env 1 (running_state\<lparr>call_state := 1\<rparr>)) =
     running_state\<lparr>call_state := 1\<rparr> \<and>
   written MCE_PROXIMITY_SENSOR_DISABLE_PATH
     (snd (call_state_trigger sample_h barren_env 1 (running_state\<lparr>call_state := 1\<rparr>))) =
     [''0''] \<and>
   written MCE_PROXIMITY_SENSOR_DISABLE_PATH
     (update_proximity_monitor sample_h sample_env (running_state\<lparr>call_state := 1\<rparr>)) =
     [''0'']"
  using proximity_interlock_idempotent
    [of sample_h barren_env "running_state\<lparr>call_state := 1\<rparr>" sample_env]
  by (simp add: spec_proximity_command_def sensor_needed_def running_state_def
      initial_state_def sample_h_def)

section \<open>Start-up\<close>

text \<open>
  C6. The interlock run of the start-up. Started from the initialisers of the statics in
  an environment where the proximity control is writable, \<^verbatim>\<open>mce_switches_init\<close> returns
  with the capability flag set, the cached call and alarm states ask for the command
  ``1'', and nothing at all has been written to the control: the interlock ran before
  the probe, while the flag was still \<^verbatim>\<open>FALSE\<close>.
\<close>

theorem init_leaves_proximity_sensor_uncommanded:
  "proximity_sensor_disable_exists
     (fst (snd (mce_switches_init sample_h sample_env (initial_state sample_h)))) = True \<and>
   spec_proximity_command sample_h True (call_state (initial_state sample_h))
     (alarm_ui_state (initial_state sample_h)) = [''1''] \<and>
   written MCE_PROXIMITY_SENSOR_DISABLE_PATH
     (snd (snd (mce_switches_init sample_h sample_env (initial_state sample_h)))) = []"
  by (simp add: mce_switches_init_def Let_def update_proximity_monitor_def initial_state_def
      spec_proximity_command_def sensor_needed_def sample_h_def sample_env_def)

text \<open>
  C8. \<^verbatim>\<open>mce_switches_init\<close> returns \<^verbatim>\<open>TRUE\<close> in every state and every environment, and
  attempts all eleven registrations whatever they return. Afterwards \<^verbatim>\<open>has_flicker_key\<close>
  holds if and only if it held before or the lock key registration returned a handle;
  started from the initialisers, if and only if that registration returned a handle.
\<close>

theorem init_always_succeeds:
  "fst (mce_switches_init h e s) = True \<and>
   map fst (registrations (snd (snd (mce_switches_init h e s)))) =
     [MCE_FLICKER_KEY_STATE_PATH, MCE_KBD_SLIDE_STATE_PATH, MCE_CAM_FOCUS_STATE_PATH,
      MCE_CAM_LAUNCH_STATE_PATH, MCE_LID_COVER_STATE_PATH, MCE_PROXIMITY_SENSOR_STATE_PATH,
      MCE_MUSB_OMAP3_USB_CABLE_STATE_PATH, MCE_LENS_COVER_STATE_PATH,
      MCE_MMC0_COVER_STATE_PATH, MCE_MMC_COVER_STATE_PATH, MCE_BATTERY_COVER_STATE_PATH] \<and>
   has_flicker_key (fst (snd (mce_switches_init h e s))) =
     (has_flicker_key s \<or> mce_register_io_monitor_string e MCE_FLICKER_KEY_STATE_PATH \<noteq> None) \<and>
   has_flicker_key (fst (snd (mce_switches_init h e (initial_state h)))) =
     (mce_register_io_monitor_string e MCE_FLICKER_KEY_STATE_PATH \<noteq> None)"
  by (simp add: init_registrations) (simp add: mce_switches_init_def Let_def initial_state_def)

theorem init_always_succeeds_witness:
  "fst (mce_switches_init sample_h barren_env (initial_state sample_h)) = True \<and>
   has_flicker_key
     (fst (snd (mce_switches_init sample_h barren_env (initial_state sample_h)))) = False \<and>
   fst (mce_switches_init sample_h sample_env (initial_state sample_h)) = True \<and>
   has_flicker_key
     (fst (snd (mce_switches_init sample_h sample_env (initial_state sample_h)))) = True"
  using init_always_succeeds [of sample_h barren_env "initial_state sample_h"]
    init_always_succeeds [of sample_h sample_env "initial_state sample_h"]
  by (simp add: barren_env_def sample_env_def initial_state_def)

section \<open>Frame of the handlers\<close>

text \<open>
  C9. Each trigger changes its own cached variable and nothing else: the statics after
  \<^verbatim>\<open>call_state_trigger\<close>, \<^verbatim>\<open>alarm_ui_state_trigger\<close> and \<^verbatim>\<open>submode_trigger\<close> are the statics
  before with \<^verbatim>\<open>call_state\<close>, \<^verbatim>\<open>alarm_ui_state\<close> and \<^verbatim>\<open>old_submode\<close> replaced, so the
  capability flags and \<^verbatim>\<open>has_flicker_key\<close> are as \<^verbatim>\<open>mce_switches_init\<close> left them; and
  \<^verbatim>\<open>mce_switches_init\<close> changes none of the three cached variables.
\<close>

theorem handlers_frame:
  "fst (call_state_trigger h e d s) = s\<lparr>call_state := d\<rparr> \<and>
   fst (alarm_ui_state_trigger h e d s) = s\<lparr>alarm_ui_state := d\<rparr> \<and>
   fst (submode_trigger h d s) = s\<lparr>old_submode := d\<rparr> \<and>
   (\<forall>s' \<in> {fst (call_state_trigger h e d s), fst (alarm_ui_state_trigger h e d s),
            fst (submode_trigger h d s)}.
      proximity_sensor_disable_exists s' = proximity_sensor_disable_exists s \<and>
      cam_focus_disable_exists s' = cam_focus_disable_exists s \<and>
      has_flicker_key s' = has_flicker_key s) \<and>
   call_state (fst (snd (mce_switches_init h e s))) = call_state s \<and>
   alarm_ui_state (fst (snd (mce_switches_init h e s))) = alarm_ui_state s \<and>
   old_submode (fst (snd (mce_switches_init h e s))) = old_submode s"
  by (simp add: call_state_trigger_def alarm_ui_state_trigger_def submode_trigger_def
      mce_switches_init_def Let_def)

theorem handlers_frame_witness:
  "fst (call_state_trigger sample_h sample_env 2 running_state) =
     running_state\<lparr>call_state := 2\<rparr> \<and>
   fst (alarm_ui_state_trigger sample_h sample_env 1 running_state) =
     running_state\<lparr>alarm_ui_state := 1\<rparr> \<and>
   fst (submode_trigger sample_h 2 running_state) = running_state\<lparr>old_submode := 2\<rparr> \<and>
   has_flicker_key (fst (call_state_trigger sample_h sample_env 2 running_state)) = False \<and>
   proximity_sensor_disable_exists
     (fst (submode_trigger sample_h 2 running_state)) = True"
  using handlers_frame [of sample_h sample_env 2 running_state]
    handlers_frame [of sample_h sample_env 1 running_state]
  by (simp add: running_state_def initial_state_def)

section \<open>Camera focus interlock\<close>

text \<open>
  C2. When the camera focus disable control exists and the focus source is open, the
  writes issued by any sequence of submode updates are exactly the specification's edge
  writes: ``1'' at each rising edge of the lock bit, ``0'' at each falling edge, nothing
  at an update that leaves the lock bit as it was. In particular, with the lock bit clear
  at first, setting, clearing and setting it again issues the three writes ``1'', ``0'',
  ``1''. After every update \<^verbatim>\<open>old_submode\<close> is the submode just delivered.
\<close>

theorem camera_focus_edge_only:
  assumes "cam_focus_disable_exists s" and "cam_focus_iomon_id s \<noteq> None"
  shows "snd (submode_updates h ds s) = spec_edge_writes h (old_submode s) ds \<and>
    old_submode (fst (submode_updates h ds s)) = last (old_submode s # ds) \<and>
    old_submode (fst (submode_trigger h d s)) = d \<and>
    (lock_bit h d = lock_bit h (old_submode s) \<longrightarrow> snd (submode_trigger h d s) = []) \<and>
    (\<not> lock_bit h (old_submode s) \<and> lock_bit h a \<and> \<not> lock_bit h b \<and> lock_bit h c \<longrightarrow>
       snd (submode_updates h [a, b, c] s) =
         [Write_string_to_file MCE_CAM_FOCUS_DISABLE_PATH ''1'',
          Write_string_to_file MCE_CAM_FOCUS_DISABLE_PATH ''0'',
          Write_string_to_file MCE_CAM_FOCUS_DISABLE_PATH ''1''])"
  using assms by (simp add: submode_updates_edges submode_trigger_edge)

theorem camera_focus_edge_only_witness:
  "cam_focus_disable_exists running_state \<and> cam_focus_iomon_id running_state \<noteq> None \<and>
   snd (submode_updates sample_h [2, 6, 4, 5, 3, 2] running_state) =
     [Write_string_to_file MCE_CAM_FOCUS_DISABLE_PATH ''1'',
      Write_string_to_file MCE_CAM_FOCUS_DISABLE_PATH ''0'',
      Write_string_to_file MCE_CAM_FOCUS_DISABLE_PATH ''1''] \<and>
   old_submode (fst (submode_updates sample_h [2, 6, 4, 5, 3, 2] running_state)) = 2 \<and>
   snd (submode_trigger sample_h 5 running_state) = [] \<and>
   snd (submode_updates sample_h [2, 0, 2] running_state) =
     [Write_string_to_file MCE_CAM_FOCUS_DISABLE_PATH ''1'',
      Write_string_to_file MCE_CAM_FOCUS_DISABLE_PATH ''0'',
      Write_string_to_file MCE_CAM_FOCUS_DISABLE_PATH ''1'']"
proof -
  have a: "cam_focus_disable_exists running_state"
    and b: "cam_focus_iomon_id running_state \<noteq> None"
    by (simp_all add: running_state_def)
  have old: "old_submode running_state = 0"
    by (simp add: running_state_def initial_state_def sample_h_def)
  have bits: "lock_bit sample_h 2" "lock_bit sample_h 6" "\<not> lock_bit sample_h 4"
    "\<not> lock_bit sample_h 5" "lock_bit sample_h 3" "\<not> lock_bit sample_h 0"
    by (simp_all add: lock_bit_def sample_h_def)
  show ?thesis
    using camera_focus_edge_only [OF a b, of sample_h "[2, 6, 4, 5, 3, 2]" 5 2 0 2] a b
    by (simp add: old bits)
qed

end
